theory Spec2Isabelle
  imports Main
begin

section \<open>The XML documents that \<open>encoding/xml\<close> hands to the parser\<close>

text \<open>
  \<open>parser.go\<close> decodes a POM file with \<open>xml.Unmarshal\<close> of Go's standard library. The
  library is not part of the repository; what the repository fixes is the set of struct
  declarations with their \<open>xml:"..."\<close> tags, the method \<open>Properties.UnmarshalXML\<close>, and
  the functions \<open>Parse\<close> and \<open>GetProperty\<close>. The library's behaviour is modelled at the
  level of the tokens its decoder produces (\<open>xml.Token\<close>): a file's content is the
  sequence of tokens its bytes lex to. \<open>Malformed\<close> marks the place where the lexer stops
  with a syntax error (a tag that is not closed by \<open>>\<close>, a bad entity, an unsupported
  encoding); the end of the list is the end of the file.
\<close>

record Name =
  Space :: string
  Local :: string

type_synonym Attr = "Name \<times> string"

datatype Token =
    StartElement Name "Attr list"
  | EndElement Name
  | CharData string
  | Comment string
  | ProcInst string string
  | Directive string
  | Malformed string

text \<open>
  The values of Go's \<open>error\<close> interface that occur: the errors of \<open>os.Open\<close> and
  \<open>ioutil.ReadAll\<close>, \<open>io.EOF\<close>, \<open>*xml.SyntaxError\<close>, \<open>xml.UnmarshalError\<close>, and the
  error built by \<open>fmt.Errorf(format, path, cause)\<close>, kept with its format and its two
  arguments.
\<close>

datatype error =
    OSError string
  | EOF
  | SyntaxError string
  | UnmarshalError string
  | Errorf string string error

text \<open>
  An element with the tokens between its start and its end tag. The structs of
  \<open>parser.go\<close> bind no attribute, comment, processing instruction or directive, so of the
  content only child elements and character data are kept, in document order.
\<close>

datatype Node =
    Element Name "Attr list" "Node list"
  | Text string

text \<open>
  \<open>Decoder.Token\<close> keeps a stack of the open elements and checks every end tag against
  the innermost open one (\<open>popElement\<close>); the end of the input inside an open element is
  the syntax error \<open>unexpected EOF\<close>. A frame of the stack is the open element's name, its
  attributes and its content read so far, latest first. \<open>read_element\<close> reads up to the
  end tag of the outermost frame and returns that element with the unread tokens.
\<close>

type_synonym frame = "Name \<times> Attr list \<times> Node list"

fun read_element :: "Token list \<Rightarrow> frame list \<Rightarrow> error + (Node \<times> Token list)" where
  "read_element [] stk = Inl (SyntaxError ''unexpected EOF'')"
| "read_element (t # ts) [] = Inl (SyntaxError ''unexpected end element'')"
| "read_element (StartElement n a # ts) ((m, b, kids) # stk) =
     read_element ts ((n, a, []) # (m, b, kids) # stk)"
| "read_element (EndElement n # ts) ((m, b, kids) # stk) =
     (if Local m \<noteq> Local n then
        Inl (SyntaxError (''element <'' @ Local m @ ''> closed by </'' @ Local n @ ''>''))
      else if Space m \<noteq> Space n then
        Inl (SyntaxError (''element <'' @ Local m @ ''> in space '' @ Space m
                          @ '' closed by </'' @ Local n @ ''> in space '' @ Space n))
      else (case stk of
              [] \<Rightarrow> Inr (Element m b (rev kids), ts)
            | (p, c, sibs) # stk' \<Rightarrow>
                read_element ts ((p, c, Element m b (rev kids) # sibs) # stk')))"
| "read_element (CharData s # ts) ((m, b, kids) # stk) =
     read_element ts ((m, b, Text s # kids) # stk)"
| "read_element (Comment s # ts) (f # stk) = read_element ts (f # stk)"
| "read_element (ProcInst s d # ts) (f # stk) = read_element ts (f # stk)"
| "read_element (Directive s # ts) (f # stk) = read_element ts (f # stk)"
| "read_element (Malformed msg # ts) (f # stk) = Inl (SyntaxError msg)"

text \<open>
  \<open>Decoder.unmarshal\<close> called without a start element reads tokens until the first
  \<open>StartElement\<close>. At the top level an end tag has nothing to close, and the end of the
  input is \<open>io.EOF\<close>.
\<close>

fun find_start :: "Token list \<Rightarrow> error + (Name \<times> Attr list \<times> Token list)" where
  "find_start [] = Inl EOF"
| "find_start (StartElement n a # ts) = Inr (n, a, ts)"
| "find_start (EndElement n # ts) =
     Inl (SyntaxError (''unexpected end element </'' @ Local n @ ''>''))"
| "find_start (Malformed msg # ts) = Inl (SyntaxError msg)"
| "find_start (CharData s # ts) = find_start ts"
| "find_start (Comment s # ts) = find_start ts"
| "find_start (ProcInst s d # ts) = find_start ts"
| "find_start (Directive s # ts) = find_start ts"

section \<open>The structs of \<open>parser.go\<close>\<close>

text \<open>
  One record per struct, with the fields in the order of the source. A Go slice is a
  list: the \<open>nil\<close> slice and the empty slice both have length 0 and both are ranged over
  zero times, and the decoder only ever appends to a slice. \<open>Properties\<close> is a Go map,
  whose \<open>nil\<close> value the source tests for: \<open>None\<close> is the \<open>nil\<close> map.
\<close>

record Parent =
  GroupId :: string
  ArtifactId :: string
  Version :: string

type_synonym Properties = "(string \<rightharpoonup> string) option"

record propertyEntry =
  XMLName :: Name
  Value :: string

record propertyEntries =
  Entries :: "propertyEntry list"

record Exclusion =
  XMLName :: Name
  GroupId :: string
  ArtifactId :: string

record Dependency =
  XMLName :: Name
  GroupId :: string
  ArtifactId :: string
  Version :: string
  Classifier :: string
  Type :: string
  Scope :: string
  Exclusions :: "Exclusion list"

record DependencyManagement =
  Dependencies :: "Dependency list"

record Repository =
  Id :: string
  Name :: string
  Url :: string

record Plugin =
  XMLName :: Name
  GroupId :: string
  ArtifactId :: string
  Version :: string

record Build =
  Plugins :: "Plugin list"

record Profile =
  Id :: string
  Build :: Build

record PluginRepository =
  Id :: string
  Name :: string
  Url :: string

record MavenProject =
  XMLName :: Name
  ModelVersion :: string
  Parent :: Parent
  GroupId :: string
  ArtifactId :: string
  Version :: string
  Packaging :: string
  Name :: string
  Repositories :: "Repository list"
  Properties :: Properties
  DependencyManagement :: DependencyManagement
  Dependencies :: "Dependency list"
  Profiles :: "Profile list"
  Build :: Build
  PluginRepositories :: "PluginRepository list"

text \<open>The zero value of each struct, which Go gives to a declared variable and to a new
  slice element.\<close>

definition zero_Name :: Name where
  "zero_Name = \<lparr>Space = [], Local = []\<rparr>"

definition zero_Parent :: Parent where
  "zero_Parent = \<lparr>Parent.GroupId = [], Parent.ArtifactId = [], Parent.Version = []\<rparr>"

definition zero_propertyEntry :: propertyEntry where
  "zero_propertyEntry = \<lparr>propertyEntry.XMLName = zero_Name, propertyEntry.Value = []\<rparr>"

definition zero_propertyEntries :: propertyEntries where
  "zero_propertyEntries = \<lparr>Entries = []\<rparr>"

definition zero_Exclusion :: Exclusion where
  "zero_Exclusion =
     \<lparr>Exclusion.XMLName = zero_Name, Exclusion.GroupId = [], Exclusion.ArtifactId = []\<rparr>"

definition zero_Dependency :: Dependency where
  "zero_Dependency =
     \<lparr>Dependency.XMLName = zero_Name, Dependency.GroupId = [], Dependency.ArtifactId = [],
      Dependency.Version = [], Dependency.Classifier = [], Dependency.Type = [],
      Dependency.Scope = [], Dependency.Exclusions = []\<rparr>"

definition zero_DependencyManagement :: DependencyManagement where
  "zero_DependencyManagement = \<lparr>DependencyManagement.Dependencies = []\<rparr>"

definition zero_Repository :: Repository where
  "zero_Repository = \<lparr>Repository.Id = [], Repository.Name = [], Repository.Url = []\<rparr>"

definition zero_Plugin :: Plugin where
  "zero_Plugin =
     \<lparr>Plugin.XMLName = zero_Name, Plugin.GroupId = [], Plugin.ArtifactId = [],
      Plugin.Version = []\<rparr>"

definition zero_Build :: Build where
  "zero_Build = \<lparr>Plugins = []\<rparr>"

definition zero_Profile :: Profile where
  "zero_Profile = \<lparr>Profile.Id = [], Profile.Build = zero_Build\<rparr>"

definition zero_PluginRepository :: PluginRepository where
  "zero_PluginRepository =
     \<lparr>PluginRepository.Id = [], PluginRepository.Name = [], PluginRepository.Url = []\<rparr>"

definition zero_MavenProject :: MavenProject where
  "zero_MavenProject =
     \<lparr>MavenProject.XMLName = zero_Name, MavenProject.ModelVersion = [],
      MavenProject.Parent = zero_Parent, MavenProject.GroupId = [],
      MavenProject.ArtifactId = [], MavenProject.Version = [],
      MavenProject.Packaging = [], MavenProject.Name = [],
      MavenProject.Repositories = [], MavenProject.Properties = None,
      MavenProject.DependencyManagement = zero_DependencyManagement,
      MavenProject.Dependencies = [], MavenProject.Profiles = [],
      MavenProject.Build = zero_Build, MavenProject.PluginRepositories = []\<rparr>"

section \<open>Decoding an element into a struct\<close>

text \<open>
  \<open>Decoder.unmarshal\<close> on a struct reads the element's content token by token. Character
  data directly inside the element is appended to a buffer, which is stored in the string
  at the end (\<open>copyValue\<close>); for a string field the element's own child elements match no
  field and are skipped.
\<close>

fun chardata :: "Node list \<Rightarrow> string" where
  "chardata [] = []"
| "chardata (Text s # ns) = s @ chardata ns"
| "chardata (Element n a kids # ns) = chardata ns"

text \<open>
  A field tagged \<open>xml:"a>b"\<close> is reached through \<open>unmarshalPath\<close>: inside a child element
  \<open>a\<close> every child element \<open>b\<close> grows the slice by one zero element and is decoded into
  it; everything else inside \<open>a\<close> is skipped. \<open>elem\<close> decodes one \<open>b\<close> from its name
  and content.
\<close>

definition unmarshalPath ::
  "string \<Rightarrow> (Name \<Rightarrow> Node list \<Rightarrow> 'a) \<Rightarrow> Node list \<Rightarrow> 'a list \<Rightarrow> 'a list" where
  "unmarshalPath name elem kids vs =
     fold (\<lambda>c vs. case c of
                     Element n a ks \<Rightarrow> if Local n = name then vs @ [elem n ks] else vs
                   | Text s \<Rightarrow> vs) kids vs"

text \<open>
  Each struct has a function for one token of its content, with the fields tried in the
  order of the declaration as \<open>unmarshalPath\<close> does (the names are compared by their local
  part, no tag of the source gives a name space), and the loop over the content. A
  struct is decoded into the value the field already holds; a string is overwritten by
  each occurrence of its element.

  Where a struct declares \<open>XMLName xml.Name `xml:"x"`\<close> the decoder compares the
  element's local name with \<open>x\<close> before it stores the name. \<open>Dependency\<close>, \<open>Exclusion\<close>
  and \<open>Plugin\<close> are only reached from a path that has just matched that same name, so
  the comparison is written out for \<open>MavenProject\<close> alone, in \<open>Unmarshal\<close>.
\<close>

fun Parent_child :: "Node \<Rightarrow> Parent \<Rightarrow> Parent" where
  "Parent_child (Text s) v = v"
| "Parent_child (Element n a kids) v =
     (if Local n = ''groupId'' then v\<lparr>Parent.GroupId := chardata kids\<rparr>
      else if Local n = ''artifactId'' then v\<lparr>Parent.ArtifactId := chardata kids\<rparr>
      else if Local n = ''version'' then v\<lparr>Parent.Version := chardata kids\<rparr>
      else v)"

definition unmarshal_Parent :: "Node list \<Rightarrow> Parent \<Rightarrow> Parent" where
  "unmarshal_Parent kids v = fold Parent_child kids v"

fun Exclusion_child :: "Node \<Rightarrow> Exclusion \<Rightarrow> Exclusion" where
  "Exclusion_child (Text s) v = v"
| "Exclusion_child (Element n a kids) v =
     (if Local n = ''groupId'' then v\<lparr>Exclusion.GroupId := chardata kids\<rparr>
      else if Local n = ''artifactId'' then v\<lparr>Exclusion.ArtifactId := chardata kids\<rparr>
      else v)"

definition unmarshal_Exclusion :: "Name \<Rightarrow> Node list \<Rightarrow> Exclusion \<Rightarrow> Exclusion" where
  "unmarshal_Exclusion start kids v = fold Exclusion_child kids (v\<lparr>Exclusion.XMLName := start\<rparr>)"

fun Dependency_child :: "Node \<Rightarrow> Dependency \<Rightarrow> Dependency" where
  "Dependency_child (Text s) v = v"
| "Dependency_child (Element n a kids) v =
     (if Local n = ''groupId'' then v\<lparr>Dependency.GroupId := chardata kids\<rparr>
      else if Local n = ''artifactId'' then v\<lparr>Dependency.ArtifactId := chardata kids\<rparr>
      else if Local n = ''version'' then v\<lparr>Dependency.Version := chardata kids\<rparr>
      else if Local n = ''classifier'' then v\<lparr>Dependency.Classifier := chardata kids\<rparr>
      else if Local n = ''type'' then v\<lparr>Dependency.Type := chardata kids\<rparr>
      else if Local n = ''scope'' then v\<lparr>Dependency.Scope := chardata kids\<rparr>
      else if Local n = ''exclusions'' then
        v\<lparr>Dependency.Exclusions :=
            unmarshalPath ''exclusion'' (\<lambda>s ks. unmarshal_Exclusion s ks zero_Exclusion)
              kids (Dependency.Exclusions v)\<rparr>
      else v)"

definition unmarshal_Dependency :: "Name \<Rightarrow> Node list \<Rightarrow> Dependency \<Rightarrow> Dependency" where
  "unmarshal_Dependency start kids v =
     fold Dependency_child kids (v\<lparr>Dependency.XMLName := start\<rparr>)"

fun DependencyManagement_child :: "Node \<Rightarrow> DependencyManagement \<Rightarrow> DependencyManagement" where
  "DependencyManagement_child (Text s) v = v"
| "DependencyManagement_child (Element n a kids) v =
     (if Local n = ''dependencies'' then
        v\<lparr>DependencyManagement.Dependencies :=
            unmarshalPath ''dependency'' (\<lambda>s ks. unmarshal_Dependency s ks zero_Dependency)
              kids (DependencyManagement.Dependencies v)\<rparr>
      else v)"

definition unmarshal_DependencyManagement ::
  "Node list \<Rightarrow> DependencyManagement \<Rightarrow> DependencyManagement" where
  "unmarshal_DependencyManagement kids v = fold DependencyManagement_child kids v"

fun Repository_child :: "Node \<Rightarrow> Repository \<Rightarrow> Repository" where
  "Repository_child (Text s) v = v"
| "Repository_child (Element n a kids) v =
     (if Local n = ''id'' then v\<lparr>Repository.Id := chardata kids\<rparr>
      else if Local n = ''name'' then v\<lparr>Repository.Name := chardata kids\<rparr>
      else if Local n = ''url'' then v\<lparr>Repository.Url := chardata kids\<rparr>
      else v)"

definition unmarshal_Repository :: "Node list \<Rightarrow> Repository \<Rightarrow> Repository" where
  "unmarshal_Repository kids v = fold Repository_child kids v"

fun Plugin_child :: "Node \<Rightarrow> Plugin \<Rightarrow> Plugin" where
  "Plugin_child (Text s) v = v"
| "Plugin_child (Element n a kids) v =
     (if Local n = ''groupId'' then v\<lparr>Plugin.GroupId := chardata kids\<rparr>
      else if Local n = ''artifactId'' then v\<lparr>Plugin.ArtifactId := chardata kids\<rparr>
      else if Local n = ''version'' then v\<lparr>Plugin.Version := chardata kids\<rparr>
      else v)"

definition unmarshal_Plugin :: "Name \<Rightarrow> Node list \<Rightarrow> Plugin \<Rightarrow> Plugin" where
  "unmarshal_Plugin start kids v = fold Plugin_child kids (v\<lparr>Plugin.XMLName := start\<rparr>)"

fun Build_child :: "Node \<Rightarrow> Build \<Rightarrow> Build" where
  "Build_child (Text s) v = v"
| "Build_child (Element n a kids) v =
     (if Local n = ''plugins'' then
        v\<lparr>Plugins :=
            unmarshalPath ''plugin'' (\<lambda>s ks. unmarshal_Plugin s ks zero_Plugin)
              kids (Plugins v)\<rparr>
      else v)"

definition unmarshal_Build :: "Node list \<Rightarrow> Build \<Rightarrow> Build" where
  "unmarshal_Build kids v = fold Build_child kids v"

fun Profile_child :: "Node \<Rightarrow> Profile \<Rightarrow> Profile" where
  "Profile_child (Text s) v = v"
| "Profile_child (Element n a kids) v =
     (if Local n = ''id'' then v\<lparr>Profile.Id := chardata kids\<rparr>
      else if Local n = ''build'' then
        v\<lparr>Profile.Build := unmarshal_Build kids (Profile.Build v)\<rparr>
      else v)"

definition unmarshal_Profile :: "Node list \<Rightarrow> Profile \<Rightarrow> Profile" where
  "unmarshal_Profile kids v = fold Profile_child kids v"

fun PluginRepository_child :: "Node \<Rightarrow> PluginRepository \<Rightarrow> PluginRepository" where
  "PluginRepository_child (Text s) v = v"
| "PluginRepository_child (Element n a kids) v =
     (if Local n = ''id'' then v\<lparr>PluginRepository.Id := chardata kids\<rparr>
      else if Local n = ''name'' then v\<lparr>PluginRepository.Name := chardata kids\<rparr>
      else if Local n = ''url'' then v\<lparr>PluginRepository.Url := chardata kids\<rparr>
      else v)"

definition unmarshal_PluginRepository ::
  "Node list \<Rightarrow> PluginRepository \<Rightarrow> PluginRepository" where
  "unmarshal_PluginRepository kids v = fold PluginRepository_child kids v"

subsection \<open>\<open>Properties.UnmarshalXML\<close>\<close>

text \<open>
  \<open>propertyEntry\<close> has an untagged \<open>XMLName\<close>, which takes the name of whatever element
  is decoded into it, and \<open>Value\<close> with \<open>,chardata\<close>. The only field of
  \<open>propertyEntries\<close> is tagged \<open>,any\<close>: every child element appends one entry.
\<close>

definition unmarshal_propertyEntry :: "Name \<Rightarrow> Node list \<Rightarrow> propertyEntry \<Rightarrow> propertyEntry" where
  "unmarshal_propertyEntry start kids v =
     v\<lparr>propertyEntry.XMLName := start, propertyEntry.Value := chardata kids\<rparr>"

fun propertyEntries_child :: "Node \<Rightarrow> propertyEntries \<Rightarrow> propertyEntries" where
  "propertyEntries_child (Text s) v = v"
| "propertyEntries_child (Element n a kids) v =
     v\<lparr>Entries := Entries v @ [unmarshal_propertyEntry n kids zero_propertyEntry]\<rparr>"

definition DecodeElement :: "Node list \<Rightarrow> propertyEntries \<Rightarrow> propertyEntries" where
  "DecodeElement kids v = fold propertyEntries_child kids v"

text \<open>
  The loop of \<open>UnmarshalXML\<close> over \<open>entries.Entries\<close>: the map is made on the first
  entry if it is \<open>nil\<close>, and the entry is stored under its local name.
\<close>

fun store_entries :: "propertyEntry list \<Rightarrow> Properties \<Rightarrow> Properties" where
  "store_entries [] props = props"
| "store_entries (entry # es) props =
     store_entries es
       (Some ((case props of None \<Rightarrow> Map.empty | Some m \<Rightarrow> m)
                (Local (propertyEntry.XMLName entry) \<mapsto> propertyEntry.Value entry)))"

text \<open>
  \<open>kids\<close> is the content of the \<open>properties\<close> element being decoded. \<open>DecodeElement\<close>
  fails in the source only on a syntax error inside the element, which \<open>read_element\<close>
  has reported before a tree exists, so the early \<open>return err\<close> has no case here.
\<close>

definition UnmarshalXML :: "Properties \<Rightarrow> Node list \<Rightarrow> Properties" where
  "UnmarshalXML props kids =
     (let entries = DecodeElement kids zero_propertyEntries
      in store_entries (Entries entries) props)"

subsection \<open>\<open>MavenProject\<close> and \<open>xml.Unmarshal\<close>\<close>

fun MavenProject_child :: "Node \<Rightarrow> MavenProject \<Rightarrow> MavenProject" where
  "MavenProject_child (Text s) v = v"
| "MavenProject_child (Element n a kids) v =
     (if Local n = ''modelVersion'' then v\<lparr>MavenProject.ModelVersion := chardata kids\<rparr>
      else if Local n = ''parent'' then
        v\<lparr>MavenProject.Parent := unmarshal_Parent kids (MavenProject.Parent v)\<rparr>
      else if Local n = ''groupId'' then v\<lparr>MavenProject.GroupId := chardata kids\<rparr>
      else if Local n = ''artifactId'' then v\<lparr>MavenProject.ArtifactId := chardata kids\<rparr>
      else if Local n = ''version'' then v\<lparr>MavenProject.Version := chardata kids\<rparr>
      else if Local n = ''packaging'' then v\<lparr>MavenProject.Packaging := chardata kids\<rparr>
      else if Local n = ''name'' then v\<lparr>MavenProject.Name := chardata kids\<rparr>
      else if Local n = ''repositories'' then
        v\<lparr>MavenProject.Repositories :=
            unmarshalPath ''repository'' (\<lambda>s ks. unmarshal_Repository ks zero_Repository)
              kids (MavenProject.Repositories v)\<rparr>
      else if Local n = ''properties'' then
        v\<lparr>MavenProject.Properties := UnmarshalXML (MavenProject.Properties v) kids\<rparr>
      else if Local n = ''dependencyManagement'' then
        v\<lparr>MavenProject.DependencyManagement :=
            unmarshal_DependencyManagement kids (MavenProject.DependencyManagement v)\<rparr>
      else if Local n = ''dependencies'' then
        v\<lparr>MavenProject.Dependencies :=
            unmarshalPath ''dependency'' (\<lambda>s ks. unmarshal_Dependency s ks zero_Dependency)
              kids (MavenProject.Dependencies v)\<rparr>
      else if Local n = ''profiles'' then
        v\<lparr>MavenProject.Profiles :=
            MavenProject.Profiles v @ [unmarshal_Profile kids zero_Profile]\<rparr>
      else if Local n = ''build'' then
        v\<lparr>MavenProject.Build := unmarshal_Build kids (MavenProject.Build v)\<rparr>
      else if Local n = ''pluginRepositories'' then
        v\<lparr>MavenProject.PluginRepositories :=
            unmarshalPath ''pluginRepository''
              (\<lambda>s ks. unmarshal_PluginRepository ks zero_PluginRepository)
              kids (MavenProject.PluginRepositories v)\<rparr>
      else v)"

definition unmarshal_MavenProject :: "Name \<Rightarrow> Node list \<Rightarrow> MavenProject \<Rightarrow> MavenProject" where
  "unmarshal_MavenProject start kids v =
     fold MavenProject_child kids (v\<lparr>MavenProject.XMLName := start\<rparr>)"

text \<open>
  \<open>xml.Unmarshal(bytes, &project)\<close>: find the first start element, compare its name
  with the \<open>project\<close> of \<open>MavenProject.XMLName\<close>, then decode up to the matching end tag.
  Nothing after that end tag is read. \<open>document_root\<close> is the element that is decoded,
  when the input has one that is closed properly.
\<close>

definition document_root :: "Token list \<Rightarrow> error + Node" where
  "document_root bytes =
     (case find_start bytes of
        Inl err \<Rightarrow> Inl err
      | Inr (n, a, ts) \<Rightarrow>
          (case read_element ts [(n, a, [])] of
             Inl err \<Rightarrow> Inl err
           | Inr (root, rest) \<Rightarrow> Inr root))"

definition Unmarshal :: "Token list \<Rightarrow> MavenProject \<Rightarrow> error + MavenProject" where
  "Unmarshal bytes v =
     (case find_start bytes of
        Inl err \<Rightarrow> Inl err
      | Inr (n, a, ts) \<Rightarrow>
          if Local n \<noteq> ''project'' then
            Inl (UnmarshalError (''expected element type <project> but have <'' @ Local n @ ''>''))
          else
            (case read_element ts [(n, a, [])] of
               Inl err \<Rightarrow> Inl err
             | Inr (Element m b kids, rest) \<Rightarrow> Inr (unmarshal_MavenProject n kids v)
             | Inr (Text s, rest) \<Rightarrow> Inr v))"

section \<open>\<open>Parse\<close>\<close>

text \<open>
  The file system is what \<open>os.Open\<close> answers for each path: an error or an open file;
  an open file is what \<open>ioutil.ReadAll\<close> answers for it: an error or the content.

  \<open>Parse\<close> has three ways to end. Two return to the caller, with \<open>(nil, err)\<close> or with
  \<open>(&project, nil)\<close>. The third is \<open>log.Fatalf\<close>, which writes its message to the log
  and calls \<open>os.Exit(1)\<close>: the process ends and the caller gets nothing. \<open>Exits format err\<close>
  keeps the format and the error passed to \<open>log.Fatalf\<close>.
\<close>

datatype File = File "error + Token list"

type_synonym FileSystem = "string \<Rightarrow> error + File"

definition os_Open :: "FileSystem \<Rightarrow> string \<Rightarrow> error + File" where
  "os_Open fs name = fs name"

fun ioutil_ReadAll :: "File \<Rightarrow> error + Token list" where
  "ioutil_ReadAll (File r) = r"

datatype outcome =
    Returns "MavenProject option" "error option"
  | Exits string error

definition Parse :: "FileSystem \<Rightarrow> string \<Rightarrow> outcome" where
  "Parse fs pomxmlPath =
     (case os_Open fs pomxmlPath of
        Inl err \<Rightarrow> Returns None (Some (Errorf ''can't open file %s, %v'' pomxmlPath err))
      | Inr f \<Rightarrow>
          (case ioutil_ReadAll f of
             Inl err \<Rightarrow> Returns None (Some (Errorf ''can't read file %s, %v'' pomxmlPath err))
           | Inr bytes \<Rightarrow>
               (case Unmarshal bytes zero_MavenProject of
                  Inl err \<Rightarrow> Exits ''unable to unmarshal pom file. Reason: %s'' err
                | Inr project \<Rightarrow> Returns (Some project) None)))"

section \<open>\<open>GetProperty\<close>\<close>

text \<open>
  \<open>strings.ToLower\<close> has a path of its own for a string of ASCII bytes, where it adds
  \<open>'a' - 'A'\<close> to the bytes from \<open>'A'\<close> to \<open>'Z'\<close>. Any other string is mapped through
  the case tables of the \<open>unicode\<close> package, which are taken as the parameter \<open>U\<close>.
\<close>

definition lower_byte :: "char \<Rightarrow> char" where
  "lower_byte c =
     (if (65::nat) \<le> of_char c \<and> of_char c \<le> (90::nat) then char_of (of_char c + (32::nat))
      else c)"

definition ToLower :: "(string \<Rightarrow> string) \<Rightarrow> string \<Rightarrow> string" where
  "ToLower U s =
     (if list_all (\<lambda>c. of_char c < (128::nat)) s then map lower_byte s else U s)"

text \<open>
  \<open>for k, v := range mp.Properties\<close> visits every entry of the map once, in an order
  that Go leaves open and varies from run to run. The order is a parameter of the
  model: \<open>visit props\<close> is the list of the entries in the order in which this run
  visits them, and \<open>range_order props kvs\<close> says that \<open>kvs\<close> is one of the orders in
  which the entries of \<open>props\<close> can be visited. The \<open>nil\<close> map is ranged over like an
  empty one.
\<close>

definition range_order :: "Properties \<Rightarrow> (string \<times> string) list \<Rightarrow> bool" where
  "range_order props kvs \<longleftrightarrow>
     distinct (map fst kvs) \<and>
     map_of kvs = (case props of None \<Rightarrow> Map.empty | Some m \<Rightarrow> m)"

fun scan :: "(string \<Rightarrow> string) \<Rightarrow> (string \<times> string) list \<Rightarrow> string \<Rightarrow> string \<times> bool" where
  "scan U [] key = ([], False)"
| "scan U ((k, v) # kvs) key =
     (if ToLower U k = ToLower U key then (v, True) else scan U kvs key)"

definition GetProperty ::
  "(string \<Rightarrow> string) \<Rightarrow> (Properties \<Rightarrow> (string \<times> string) list) \<Rightarrow> MavenProject \<Rightarrow> string
     \<Rightarrow> string \<times> bool" where
  "GetProperty U visit mp key = scan U (visit (MavenProject.Properties mp)) key"

section \<open>Documents and queries used in the statements\<close>

text \<open>A name without a name space, and an element written as its tokens.\<close>

definition local_name :: "string \<Rightarrow> Name" where
  "local_name s = \<lparr>Space = [], Local = s\<rparr>"

definition element :: "string \<Rightarrow> Token list \<Rightarrow> Token list" where
  "element s body = StartElement (local_name s) [] # body @ [EndElement (local_name s)]"

text \<open>A POM whose \<open>profiles\<close> element holds two \<open>profile\<close> elements, \<open>p1\<close> and \<open>p2\<close>.\<close>

definition two_profiles_pom :: "Token list" where
  "two_profiles_pom =
     element ''project''
       (element ''profiles''
          (element ''profile'' (element ''id'' [CharData ''p1''])
           @ element ''profile'' (element ''id'' [CharData ''p2''])))"

text \<open>The file system in which every path opens and reads as the given content.\<close>

definition file_with :: "Token list \<Rightarrow> FileSystem" where
  "file_with bytes = (\<lambda>p. Inr (File (Inr bytes)))"

text \<open>The child elements with a given local name, and the absence of any.\<close>

fun is_named :: "string \<Rightarrow> Node \<Rightarrow> bool" where
  "is_named t (Element n a ks) = (Local n = t)"
| "is_named t (Text s) = False"

definition children :: "string \<Rightarrow> Node list \<Rightarrow> Node list" where
  "children t kids = filter (is_named t) kids"

definition absent :: "string \<Rightarrow> Node list \<Rightarrow> bool" where
  "absent t kids \<longleftrightarrow> children t kids = []"

text \<open>The keys of a property map and the value under a key; the \<open>nil\<close> map has no key.\<close>

definition keys :: "Properties \<Rightarrow> string set" where
  "keys props = (case props of None \<Rightarrow> {} | Some m \<Rightarrow> dom m)"

definition index :: "Properties \<Rightarrow> string \<Rightarrow> string option" where
  "index props k = (case props of None \<Rightarrow> None | Some m \<Rightarrow> m k)"

text \<open>Whether a node is an element, and the content of an element.\<close>

fun is_element :: "Node \<Rightarrow> bool" where
  "is_element (Element n a ks) = True"
| "is_element (Text s) = False"

fun content :: "Node \<Rightarrow> Node list" where
  "content (Element n a ks) = ks"
| "content (Text s) = []"

text \<open>What \<open>Parse\<close> reads from a path when the file opens and is read without error.\<close>

definition file_content :: "FileSystem \<Rightarrow> string \<Rightarrow> Token list option" where
  "file_content fs path =
     (case os_Open fs path of
        Inl err \<Rightarrow> None
      | Inr f \<Rightarrow> (case ioutil_ReadAll f of Inl err \<Rightarrow> None | Inr bytes \<Rightarrow> Some bytes))"

text \<open>
  The spec's description of the property rule: the immediate child elements of
  \<open>properties\<close>, in document order, as pairs of local tag name and text content. The
  text content of an element is the character data directly inside it.
\<close>

fun tag_text_pairs :: "Node list \<Rightarrow> (string \<times> string) list" where
  "tag_text_pairs [] = []"
| "tag_text_pairs (Element n a ks # cs) = (Local n, chardata ks) # tag_text_pairs cs"
| "tag_text_pairs (Text s # cs) = tag_text_pairs cs"

text \<open>
  The document \<open><project><properties><java.version>11</java.version></properties></project>\<close>
  and the project it decodes to; a document whose \<open>properties\<close> element is empty.
\<close>

definition java_version_pom :: "Token list" where
  "java_version_pom =
     element ''project''
       (element ''properties'' (element ''java.version'' [CharData ''11'']))"

definition java_version_project :: MavenProject where
  "java_version_project =
     zero_MavenProject
       \<lparr>MavenProject.XMLName := local_name ''project'',
        MavenProject.Properties := Some [''java.version'' \<mapsto> ''11'']\<rparr>"

definition empty_properties_pom :: "Token list" where
  "empty_properties_pom = element ''project'' (element ''properties'' [])"

text \<open>
  The name of an element, and the text of the last child element with a given local
  name (the empty string when there is none).
\<close>

fun name_of :: "Node \<Rightarrow> Name" where
  "name_of (Element n a ks) = n"
| "name_of (Text s) = zero_Name"

definition child_text :: "string \<Rightarrow> Node list \<Rightarrow> string" where
  "child_text t kids =
     (case children t kids of [] \<Rightarrow> [] | c # cs \<Rightarrow> chardata (content (last (c # cs))))"

text \<open>An \<open>exclusion\<close> element with a \<open>groupId\<close> and an \<open>artifactId\<close>.\<close>

definition excl :: "string \<Rightarrow> string \<Rightarrow> Node" where
  "excl g a =
     Element (local_name ''exclusion'') []
       [Element (local_name ''groupId'') [] [Text g],
        Element (local_name ''artifactId'') [] [Text a]]"



definition empty_project :: MavenProject where
  "empty_project = zero_MavenProject\<lparr>MavenProject.XMLName := local_name ''project''\<rparr>"

section \<open>Basic facts\<close>

lemma fold_field_unchanged:
  "(\<And>c v. c \<in> set kids \<Longrightarrow> sel (f c v) = sel v) \<Longrightarrow> sel (fold f kids v) = sel v"
  by (induction kids arbitrary: v) simp_all

lemma absent_Cons:
  "absent t (c # kids) \<longleftrightarrow> \<not> is_named t c \<and> absent t kids"
  by (simp add: absent_def children_def)


lemma read_element_root:
  "read_element ts stk = Inr (root, rest) \<Longrightarrow>
     \<exists>kids. root = Element (fst (last stk)) (fst (snd (last stk))) kids"
proof (induction ts stk rule: read_element.induct)
  case (4 n ts m b kids stk)
  then show ?case
    by (cases stk) (auto split: if_splits)
qed (auto split: if_splits)

text \<open>A successful \<open>Unmarshal\<close> has decoded the content of the document's root element,
  and a document whose root element is \<open>project\<close> is decoded.\<close>

lemma Unmarshal_document_root:
  assumes "Unmarshal bytes v = Inr mp"
  shows "\<exists>n a kids. document_root bytes = Inr (Element n a kids) \<and> Local n = ''project''
           \<and> mp = unmarshal_MavenProject n kids v"
proof -
  from assms obtain n a ts where fs: "find_start bytes = Inr (n, a, ts)"
    by (auto simp: Unmarshal_def split: sum.splits)
  from assms fs have nm: "Local n = ''project''"
    by (auto simp: Unmarshal_def split: sum.splits if_splits)
  from assms fs nm obtain root rest where re: "read_element ts [(n, a, [])] = Inr (root, rest)"
    by (auto simp: Unmarshal_def split: sum.splits)
  from read_element_root[OF re] obtain kids where root: "root = Element n a kids"
    by auto
  from assms fs nm re root have "mp = unmarshal_MavenProject n kids v"
    by (simp add: Unmarshal_def)
  with fs re root nm show ?thesis
    by (simp add: document_root_def)
qed

lemma Unmarshal_of_document_root:
  assumes "document_root bytes = Inr (Element n a kids)" "Local n = ''project''"
  shows "Unmarshal bytes v = Inr (unmarshal_MavenProject n kids v)"
proof -
  from assms obtain n' a' ts where fs: "find_start bytes = Inr (n', a', ts)"
    by (auto simp: document_root_def split: sum.splits)
  from assms fs obtain rest where
    re: "read_element ts [(n', a', [])] = Inr (Element n a kids, rest)"
    by (auto simp: document_root_def split: sum.splits)
  from read_element_root[OF re] have "n' = n" by simp
  with fs re assms show ?thesis by (simp add: Unmarshal_def)
qed

lemma absent_Nil: "absent t []"
  by (simp add: absent_def children_def)

lemma Parse_Returns_project:
  assumes "Parse fs path = Returns (Some mp) None" and "file_content fs path = Some bytes"
  shows "Unmarshal bytes zero_MavenProject = Inr mp"
  using assms by (auto simp: Parse_def file_content_def split: sum.splits)

lemma Parse_decodes_root:
  assumes "Parse fs path = Returns (Some mp) None" and "file_content fs path = Some bytes"
    and "document_root bytes = Inr (Element n a kids)"
  shows "mp = unmarshal_MavenProject n kids zero_MavenProject"
  using Unmarshal_document_root[OF Parse_Returns_project[OF assms(1,2)]] assms(3) by auto

lemma file_content_file_with:
  "file_content (file_with bytes) path = Some bytes"
  by (simp add: file_content_def file_with_def os_Open_def)

subsection \<open>The property map\<close>

lemma Entries_DecodeElement:
  "map (\<lambda>e. (Local (propertyEntry.XMLName e), propertyEntry.Value e)) (Entries (DecodeElement kids v))
     = map (\<lambda>e. (Local (propertyEntry.XMLName e), propertyEntry.Value e)) (Entries v) @ tag_text_pairs kids"
  unfolding DecodeElement_def
proof (induction kids arbitrary: v)
  case Nil
  then show ?case by simp
next
  case (Cons c kids)
  then show ?case
    by (cases c) (simp_all add: unmarshal_propertyEntry_def)
qed

lemma index_store:
  "index (Some ((case props of None \<Rightarrow> Map.empty | Some m \<Rightarrow> m)(k' \<mapsto> v))) k =
     (if k = k' then Some v else index props k)"
  by (simp add: index_def split: option.splits)

lemma store_entries_index:
  "index (store_entries es props) k =
     (case map_of (rev (map (\<lambda>e. (Local (propertyEntry.XMLName e), propertyEntry.Value e)) es)) k of
        None \<Rightarrow> index props k | Some v \<Rightarrow> Some v)"
proof (induction es arbitrary: props)
  case Nil
  then show ?case by simp
next
  case (Cons e es)
  show ?case
    by (simp add: Cons.IH index_store map_add_def split: option.splits)
qed

lemma UnmarshalXML_index:
  "index (UnmarshalXML props kids) k =
     (case map_of (rev (tag_text_pairs kids)) k of None \<Rightarrow> index props k | Some v \<Rightarrow> Some v)"
  using Entries_DecodeElement[of kids zero_propertyEntries]
  by (simp add: UnmarshalXML_def store_entries_index zero_propertyEntries_def)

lemma tag_text_pairs_Nil:
  "tag_text_pairs kids = [] \<longleftrightarrow> filter is_element kids = []"
  by (induction kids rule: tag_text_pairs.induct) simp_all

lemma UnmarshalXML_no_element:
  assumes "filter is_element kids = []"
  shows "UnmarshalXML props kids = props"
proof -
  have "tag_text_pairs kids = []" using assms by (simp add: tag_text_pairs_Nil)
  with Entries_DecodeElement[of kids zero_propertyEntries]
  have "Entries (DecodeElement kids zero_propertyEntries) = []"
    by (simp add: zero_propertyEntries_def)
  then show ?thesis by (simp add: UnmarshalXML_def)
qed

lemma absent_tag_text_pairs:
  "absent k kids \<longleftrightarrow> k \<notin> fst ` set (tag_text_pairs kids)"
  by (induction kids rule: tag_text_pairs.induct) (auto simp: absent_Cons absent_Nil)

lemma keys_index: "k \<in> keys props \<longleftrightarrow> index props k \<noteq> None"
  by (auto simp: keys_def index_def split: option.splits)

lemma UnmarshalXML_keys:
  "keys (UnmarshalXML props kids) = keys props \<union> fst ` set (tag_text_pairs kids)"
proof -
  have "k \<in> keys (UnmarshalXML props kids) \<longleftrightarrow>
          k \<in> keys props \<or> k \<in> fst ` set (tag_text_pairs kids)" for k
  proof (cases "map_of (rev (tag_text_pairs kids)) k")
    case None
    then have "k \<notin> fst ` set (tag_text_pairs kids)"
      by (simp add: map_of_eq_None_iff)
    with None show ?thesis
      by (simp add: keys_index UnmarshalXML_index)
  next
    case (Some v)
    then have "k \<in> fst ` set (tag_text_pairs kids)"
      using map_of_eq_None_iff[of "rev (tag_text_pairs kids)" k] by simp
    with Some show ?thesis
      by (simp add: keys_index UnmarshalXML_index)
  qed
  then have "keys (UnmarshalXML props kids) = keys props \<union> fst ` set (tag_text_pairs kids)"
    by blast
  then show ?thesis .
qed

lemma UnmarshalXML_last_wins:
  assumes "kids = pre @ Element n a ks # post" and "absent (Local n) post"
  shows "index (UnmarshalXML props kids) (Local n) = Some (chardata ks)"
proof -
  have pairs: "tag_text_pairs (xs @ ys) = tag_text_pairs xs @ tag_text_pairs ys" for xs ys
    by (induction xs rule: tag_text_pairs.induct) simp_all
  have "map_of (rev (tag_text_pairs post)) (Local n) = None"
    using assms(2) by (simp add: absent_tag_text_pairs map_of_eq_None_iff)
  then have "map_of (rev (tag_text_pairs kids)) (Local n) = Some (chardata ks)"
    by (simp add: assms(1) pairs map_add_def)
  then show ?thesis by (simp add: UnmarshalXML_index)
qed

lemma UnmarshalXML_other_keys:
  assumes "absent k kids"
  shows "index (UnmarshalXML props kids) k = index props k"
proof -
  have "map_of (rev (tag_text_pairs kids)) k = None"
    using assms by (simp add: absent_tag_text_pairs map_of_eq_None_iff)
  then show ?thesis by (simp add: UnmarshalXML_index)
qed

lemma UnmarshalXML_single:
  "UnmarshalXML None [Element jn ja jk] = Some [Local jn \<mapsto> chardata jk]"
  by (simp add: UnmarshalXML_def DecodeElement_def unmarshal_propertyEntry_def
        zero_propertyEntries_def zero_propertyEntry_def)

lemma Properties_fold_MavenProject_child:
  "MavenProject.Properties (fold MavenProject_child kids v) =
     fold (\<lambda>c p. UnmarshalXML p (content c)) (children ''properties'' kids)
       (MavenProject.Properties v)"
proof (induction kids arbitrary: v)
  case Nil
  then show ?case by (simp add: children_def)
next
  case (Cons c kids)
  show ?case
  proof (cases c)
    case (Element n a ks)
    then show ?thesis
      by (cases "Local n = ''properties''") (simp_all add: Cons.IH children_def)
  next
    case (Text s)
    then show ?thesis by (simp add: Cons.IH children_def)
  qed
qed

lemma Properties_unmarshal_MavenProject:
  "MavenProject.Properties (unmarshal_MavenProject n kids v) =
     fold (\<lambda>c p. UnmarshalXML p (content c)) (children ''properties'' kids)
       (MavenProject.Properties v)"
  by (simp add: unmarshal_MavenProject_def Properties_fold_MavenProject_child)

lemma fold_UnmarshalXML_no_element:
  "\<forall>p \<in> set ps. filter is_element (content p) = [] \<Longrightarrow>
     fold (\<lambda>c p. UnmarshalXML p (content c)) ps props = props"
  by (induction ps arbitrary: props) (simp_all add: UnmarshalXML_no_element)

subsection \<open>Ranging over the property map\<close>

lemma scan_no_match:
  "\<forall>k \<in> fst ` set kvs. ToLower U k \<noteq> ToLower U key \<Longrightarrow> scan U kvs key = ([], False)"
  by (induction kvs) auto

lemma range_order_keys:
  "range_order props kvs \<Longrightarrow> fst ` set kvs = keys props"
  by (auto simp: range_order_def keys_def dom_map_of_conv_image_fst split: option.splits)

lemma range_order_nil:
  "range_order None kvs \<Longrightarrow> kvs = []"
  by (cases kvs) (auto simp: range_order_def)

lemma range_order_single:
  assumes "range_order (Some [k \<mapsto> v]) kvs"
  shows "kvs = [(k, v)]"
proof -
  from assms have d: "distinct (map fst kvs)" and m: "map_of kvs = [k \<mapsto> v]"
    by (simp_all add: range_order_def)
  from m have dom: "fst ` set kvs = {k}"
    using dom_map_of_conv_image_fst[of kvs] by simp
  show ?thesis
  proof (cases kvs)
    case Nil
    with dom show ?thesis by simp
  next
    case (Cons x rest)
    obtain k1 v1 where x: "x = (k1, v1)" by (cases x)
    from dom Cons x have k1: "k1 = k" by auto
    from m Cons x k1 have v1: "v1 = v"
      by (metis fun_upd_same map_of_Cons_code(2) option.inject)
    from d Cons x k1 have "k \<notin> fst ` set rest" by simp
    moreover from dom Cons have "fst ` set rest \<subseteq> {k}" by auto
    ultimately have "rest = []" by (cases rest) auto
    with Cons x k1 v1 show ?thesis by simp
  qed
qed

lemma ToLower_java_version:
  "ToLower U ''java.version'' = ''java.version''" "ToLower U ''JAVA.VERSION'' = ''java.version''"
  unfolding ToLower_def by code_simp+

subsection \<open>The example documents\<close>

lemma document_root_java_version_pom:
  "document_root java_version_pom =
     Inr (Element (local_name ''project'') []
            [Element (local_name ''properties'') []
               [Element (local_name ''java.version'') [] [Text ''11'']]])"
  by (simp add: document_root_def java_version_pom_def element_def local_name_def)

lemma Parse_java_version_pom:
  "Parse (file_with java_version_pom) path = Returns (Some java_version_project) None"
  by (simp add: Parse_def os_Open_def file_with_def Unmarshal_def java_version_pom_def
        element_def local_name_def unmarshal_MavenProject_def UnmarshalXML_def DecodeElement_def
        unmarshal_propertyEntry_def zero_propertyEntries_def zero_propertyEntry_def
        java_version_project_def zero_MavenProject_def)

lemma range_order_java_version_project:
  "range_order (MavenProject.Properties java_version_project) [(''java.version'', ''11'')]"
  by (simp add: range_order_def java_version_project_def zero_MavenProject_def)

lemma document_root_empty_properties_pom:
  "document_root empty_properties_pom =
     Inr (Element (local_name ''project'') [] [Element (local_name ''properties'') [] []])"
  by (simp add: document_root_def empty_properties_pom_def element_def local_name_def)

lemma Parse_empty_properties_pom:
  "Parse (file_with empty_properties_pom) path = Returns (Some empty_project) None"
  by (simp add: Parse_def os_Open_def file_with_def Unmarshal_def empty_properties_pom_def
        element_def local_name_def unmarshal_MavenProject_def UnmarshalXML_def DecodeElement_def
        zero_propertyEntries_def zero_MavenProject_def empty_project_def)

subsection \<open>A field whose element is absent keeps its value\<close>











































subsection \<open>Strings and paths\<close>

lemma fold_string_field:
  assumes "\<And>c v. sel (f c v) = (if is_named t c then chardata (content c) else sel v)"
  shows "sel (fold f kids v) = (if absent t kids then sel v else child_text t kids)"
proof (induction kids arbitrary: v)
  case Nil
  then show ?case by (simp add: absent_Nil)
next
  case (Cons c kids)
  show ?case
  proof (cases "absent t kids")
    case True
    then show ?thesis
      by (simp add: Cons.IH assms absent_Cons child_text_def children_def absent_def)
  next
    case False
    then obtain d ds where "children t kids = d # ds"
      by (cases "children t kids") (simp_all add: absent_def)
    with False show ?thesis
      by (simp add: Cons.IH absent_Cons child_text_def children_def)
  qed
qed

lemma unmarshalPath_children:
  "unmarshalPath t elem kids vs =
     vs @ map (\<lambda>c. elem (name_of c) (content c)) (children t kids)"
  unfolding unmarshalPath_def
proof (induction kids arbitrary: vs)
  case Nil
  then show ?case by (simp add: children_def)
next
  case (Cons c kids)
  then show ?case by (cases c) (simp_all add: children_def)
qed

lemma Exclusion_GroupId:
  "Exclusion.GroupId (unmarshal_Exclusion s ks zero_Exclusion) = child_text ''groupId'' ks"
proof -
  have "Exclusion.GroupId (fold Exclusion_child ks v) =
          (if absent ''groupId'' ks then Exclusion.GroupId v else child_text ''groupId'' ks)" for v
    by (rule fold_string_field) (case_tac c; simp)
  then show ?thesis
    by (simp add: unmarshal_Exclusion_def zero_Exclusion_def child_text_def absent_def)
qed

lemma Exclusion_ArtifactId:
  "Exclusion.ArtifactId (unmarshal_Exclusion s ks zero_Exclusion) = child_text ''artifactId'' ks"
proof -
  have "Exclusion.ArtifactId (fold Exclusion_child ks v) =
          (if absent ''artifactId'' ks then Exclusion.ArtifactId v else child_text ''artifactId'' ks)" for v
    by (rule fold_string_field) (case_tac c; simp)
  then show ?thesis
    by (simp add: unmarshal_Exclusion_def zero_Exclusion_def child_text_def absent_def)
qed

lemma Exclusion_XMLName:
  "Exclusion.XMLName (unmarshal_Exclusion s ks v) = s"
proof -
  have "Exclusion.XMLName (fold Exclusion_child ks w) = Exclusion.XMLName w" for w
    by (rule fold_field_unchanged) (case_tac c; simp)
  then show ?thesis by (simp add: unmarshal_Exclusion_def)
qed

lemma unmarshal_Exclusion_eq:
  "unmarshal_Exclusion s ks zero_Exclusion =
     \<lparr>Exclusion.XMLName = s, Exclusion.GroupId = child_text ''groupId'' ks,
      Exclusion.ArtifactId = child_text ''artifactId'' ks\<rparr>"
  by (rule Exclusion.equality) (simp_all add: Exclusion_XMLName Exclusion_GroupId Exclusion_ArtifactId)

lemma Exclusions_fold_Dependency_child:
  "Dependency.Exclusions (fold Dependency_child kids v) =
     Dependency.Exclusions v @
     concat (map (\<lambda>x. map (\<lambda>c. unmarshal_Exclusion (name_of c) (content c) zero_Exclusion)
                        (children ''exclusion'' (content x)))
               (children ''exclusions'' kids))"
proof (induction kids arbitrary: v)
  case Nil
  then show ?case by (simp add: children_def)
next
  case (Cons c kids)
  show ?case
  proof (cases c)
    case (Element n a ks)
    then show ?thesis
      by (cases "Local n = ''exclusions''")
         (simp_all add: Cons.IH unmarshalPath_children children_def)
  next
    case (Text s)
    then show ?thesis by (simp add: Cons.IH children_def)
  qed
qed

subsection \<open>The minimal document\<close>



section \<open>The claims\<close>

subsection \<open>C1: a decode error ends the process\<close>

text \<open>
  C1 says that for content that is not well-formed XML, such as an unclosed tag,
  \<open>Parse\<close> reports a decode error as a returned error value with no project and does not
  terminate the process. The file below is the single start tag \<open><project>\<close>: the
  decoder meets the end of the input inside the element, and \<open>Parse\<close> passes that
  error to \<open>log.Fatalf\<close>. Nothing is returned, the process exits.
\<close>

theorem Parse_unclosed_tag_exits:
  "Parse (file_with [StartElement (local_name ''project'') []]) ''pom.xml'' =
     Exits ''unable to unmarshal pom file. Reason: %s'' (SyntaxError ''unexpected EOF'')"
  by (simp add: Parse_def os_Open_def file_with_def Unmarshal_def local_name_def)

subsection \<open>C2: the profile list\<close>

text \<open>
  C2 says that a \<open>profiles\<close> element with n \<open>profile\<close> children decodes to a profile
  list of n entries, each with its profile's id and build block. \<open>Profiles\<close> is tagged
  \<open>xml:"profiles"\<close>, not \<open>xml:"profiles>profile"\<close> as the other lists are, so the
  \<open>profiles\<close> element itself is decoded as one \<open>Profile\<close>, whose \<open>id\<close> and \<open>build\<close>
  would have to be its own children. With the two profiles \<open>p1\<close> and \<open>p2\<close> the list has
  one entry, with an empty id and no plugin.
\<close>

theorem Parse_two_profiles:
  "Parse (file_with two_profiles_pom) ''pom.xml'' =
     Returns (Some (zero_MavenProject
                \<lparr>MavenProject.XMLName := local_name ''project'',
                 MavenProject.Profiles := [zero_Profile]\<rparr>)) None"
  by (simp add: Parse_def os_Open_def file_with_def Unmarshal_def two_profiles_pom_def
        element_def local_name_def unmarshal_MavenProject_def unmarshal_Profile_def
        zero_MavenProject_def)

subsection \<open>C3: one map entry per child of \<open>properties\<close>\<close>

text \<open>
  C3: decoding a \<open>properties\<close> element with content \<open>kids\<close> into the map \<open>props\<close>
  records an entry for every immediate child element whatever its tag name: the keys
  afterwards are the keys before and the local names of the child elements; the value
  under the local name of a child is the text of the last child with that name; every
  other key keeps what it had; and with no child element the map is left as it was.
\<close>

theorem UnmarshalXML_one_entry_per_child:
  "keys (UnmarshalXML props kids) = keys props \<union> fst ` set (tag_text_pairs kids) \<and>
   (kids = pre @ Element n a ks # post \<and> absent (Local n) post \<longrightarrow>
      index (UnmarshalXML props kids) (Local n) = Some (chardata ks)) \<and>
   (absent k kids \<longrightarrow> index (UnmarshalXML props kids) k = index props k) \<and>
   (filter is_element kids = [] \<longrightarrow> UnmarshalXML props kids = props)"
  by (intro conjI impI)
     (rule UnmarshalXML_keys, simp add: UnmarshalXML_last_wins,
      rule UnmarshalXML_other_keys, assumption, rule UnmarshalXML_no_element, assumption)

theorem UnmarshalXML_one_entry_per_child_witness:
  "keys (UnmarshalXML None
           [Element (local_name ''a'') [] [Text ''1''], Text '' '',
            Element (local_name ''b'') [] [Text ''2''],
            Element (local_name ''a'') [] [Text ''3'']]) = {''a'', ''b''} \<and>
   index (UnmarshalXML None
           [Element (local_name ''a'') [] [Text ''1''], Text '' '',
            Element (local_name ''b'') [] [Text ''2''],
            Element (local_name ''a'') [] [Text ''3'']]) ''a'' = Some ''3'' \<and>
   index (UnmarshalXML None
           [Element (local_name ''a'') [] [Text ''1''], Text '' '',
            Element (local_name ''b'') [] [Text ''2''],
            Element (local_name ''a'') [] [Text ''3'']]) ''c'' = None \<and>
   UnmarshalXML None [Text '' ''] = None"
proof -
  let ?pre = "[Element (local_name ''a'') [] [Text ''1''], Text '' '',
               Element (local_name ''b'') [] [Text ''2'']]"
  let ?kids = "?pre @ [Element (local_name ''a'') [] [Text ''3'']]"
  have last: "?kids = ?pre @ Element (local_name ''a'') [] [Text ''3''] # [] \<and>
              absent (Local (local_name ''a'')) []"
    by (simp add: absent_def children_def)
  have other: "absent ''c'' ?kids"
    by (simp add: absent_def children_def local_name_def)
  have none: "filter is_element [Text '' ''] = []"
    by simp
  have a: "Local (local_name ''a'') = ''a''"
    by (simp add: local_name_def)
  from UnmarshalXML_one_entry_per_child
         [of None ?kids ?pre "local_name ''a''" "[]" "[Text ''3'']" "[]" "''c''"]
       UnmarshalXML_one_entry_per_child [of None "[Text '' '']"] last other none
  show ?thesis
    unfolding a by (auto simp: keys_def index_def local_name_def)
qed

subsection \<open>C4: looking up \<open>java.version\<close>\<close>

text \<open>
  C4: for a project that \<open>Parse\<close> returns for a document whose root holds the one
  property element \<open><properties><java.version>11</java.version></properties>\<close>,
  \<open>GetProperty\<close> gives \<open>("11", true)\<close> for both \<open>java.version\<close> and \<open>JAVA.VERSION\<close>, in
  whatever order the map is ranged over and whatever the case tables are for strings
  that are not ASCII.
\<close>

theorem GetProperty_java_version:
  assumes "file_content fs path = Some bytes"
    and "Parse fs path = Returns (Some mp) None"
    and "document_root bytes = Inr (Element n a kids)"
    and "children ''properties'' kids = [Element pn pa [Element jn ja [Text ''11'']]]"
    and "Local jn = ''java.version''"
    and "range_order (MavenProject.Properties mp) (visit (MavenProject.Properties mp))"
  shows "GetProperty U visit mp ''java.version'' = (''11'', True) \<and>
         GetProperty U visit mp ''JAVA.VERSION'' = (''11'', True)"
proof -
  have mp: "mp = unmarshal_MavenProject n kids zero_MavenProject"
    using Parse_decodes_root[OF assms(2,1,3)] .
  have props: "MavenProject.Properties mp = Some [''java.version'' \<mapsto> ''11'']"
    by (simp add: mp Properties_unmarshal_MavenProject assms(4) UnmarshalXML_single assms(5)
          zero_MavenProject_def)
  from assms(6) have "visit (MavenProject.Properties mp) = [(''java.version'', ''11'')]"
    unfolding props by (rule range_order_single)
  then show ?thesis
    by (simp add: GetProperty_def ToLower_java_version)
qed

theorem GetProperty_java_version_witness:
  "GetProperty id (\<lambda>props. [(''java.version'', ''11'')]) java_version_project ''java.version''
     = (''11'', True) \<and>
   GetProperty id (\<lambda>props. [(''java.version'', ''11'')]) java_version_project ''JAVA.VERSION''
     = (''11'', True)"
  using GetProperty_java_version [where U = id and visit = "\<lambda>props. [(''java.version'', ''11'')]"
          and pn = "local_name ''properties''" and pa = "[]"
          and jn = "local_name ''java.version''" and ja = "[]",
          OF file_content_file_with Parse_java_version_pom
          document_root_java_version_pom _ _ range_order_java_version_project]
  by (simp add: children_def local_name_def)

subsection \<open>C5: a key that matches nothing\<close>

text \<open>
  C5: when no key of the project's property map is equal to the given key after both
  are lower-cased, \<open>GetProperty\<close> gives the empty string and \<open>false\<close>, in whatever
  order the map is ranged over.
\<close>

theorem GetProperty_no_match:
  assumes "range_order (MavenProject.Properties mp) (visit (MavenProject.Properties mp))"
    and "\<forall>k \<in> keys (MavenProject.Properties mp). ToLower U k \<noteq> ToLower U key"
  shows "GetProperty U visit mp key = ([], False)"
  using assms by (simp add: GetProperty_def scan_no_match range_order_keys)

theorem GetProperty_no_match_witness:
  "GetProperty id (\<lambda>props. [(''java.version'', ''11'')]) java_version_project ''nonexistent''
     = ([], False)"
proof -
  have "ToLower id ''java.version'' \<noteq> ToLower id ''nonexistent''"
    by code_simp
  then show ?thesis
    using GetProperty_no_match [where U = id and key = "''nonexistent''"
            and visit = "\<lambda>props. [(''java.version'', ''11'')]",
            OF range_order_java_version_project]
    by (simp add: keys_def java_version_project_def zero_MavenProject_def)
qed

subsection \<open>C6: a file that cannot be opened or read\<close>

text \<open>
  C6: when the file cannot be opened, or is opened and cannot be read, \<open>Parse\<close> returns
  at once with no project and an error made of the path and the underlying error.
\<close>

theorem Parse_file_access_error:
  "(os_Open fs path = Inl cause \<longrightarrow>
      Parse fs path = Returns None (Some (Errorf ''can't open file %s, %v'' path cause))) \<and>
   (os_Open fs path = Inr f \<and> ioutil_ReadAll f = Inl cause \<longrightarrow>
      Parse fs path = Returns None (Some (Errorf ''can't read file %s, %v'' path cause)))"
  by (simp add: Parse_def)

theorem Parse_file_access_error_witness:
  "Parse (\<lambda>p. Inl (OSError ''no such file or directory'')) ''pom.xml'' =
     Returns None (Some (Errorf ''can't open file %s, %v'' ''pom.xml''
                            (OSError ''no such file or directory''))) \<and>
   Parse (\<lambda>p. Inr (File (Inl (OSError ''is a directory'')))) ''target'' =
     Returns None (Some (Errorf ''can't read file %s, %v'' ''target''
                            (OSError ''is a directory'')))"
  using Parse_file_access_error [of "\<lambda>p. Inl (OSError ''no such file or directory'')"
          "''pom.xml''" "OSError ''no such file or directory''"]
        Parse_file_access_error [of "\<lambda>p. Inr (File (Inl (OSError ''is a directory'')))"
          "''target''" "OSError ''is a directory''" "File (Inl (OSError ''is a directory''))"]
  by (simp add: os_Open_def)

subsection \<open>C7: absent sections\<close>



subsection \<open>C8: the result depends on the content only\<close>



subsection \<open>C9: the exclusions of a dependency\<close>

text \<open>
  C9: a \<open>dependency\<close> element with one \<open>exclusions\<close> section that holds two
  \<open>exclusion\<close> elements decodes, from the zero value, to a \<open>Dependency\<close> with exactly
  two exclusions, in document order, each with the text of its element's \<open>groupId\<close> and
  \<open>artifactId\<close>.
\<close>

theorem Dependency_two_exclusions:
  assumes "children ''exclusions'' kids = [x]"
    and "children ''exclusion'' (content x) = [e1, e2]"
  shows "Dependency.Exclusions (unmarshal_Dependency start kids zero_Dependency) =
           [\<lparr>Exclusion.XMLName = name_of e1,
             Exclusion.GroupId = child_text ''groupId'' (content e1),
             Exclusion.ArtifactId = child_text ''artifactId'' (content e1)\<rparr>,
            \<lparr>Exclusion.XMLName = name_of e2,
             Exclusion.GroupId = child_text ''groupId'' (content e2),
             Exclusion.ArtifactId = child_text ''artifactId'' (content e2)\<rparr>]"
  by (simp add: unmarshal_Dependency_def Exclusions_fold_Dependency_child assms
        unmarshal_Exclusion_eq zero_Dependency_def)

theorem Dependency_two_exclusions_witness:
  "Dependency.Exclusions
     (unmarshal_Dependency (local_name ''dependency'')
        [Element (local_name ''groupId'') [] [Text ''org.example''],
         Element (local_name ''artifactId'') [] [Text ''lib''],
         Element (local_name ''exclusions'') []
           [excl ''commons-logging'' ''commons-logging'', Text '' '', excl ''log4j'' ''log4j'']]
        zero_Dependency) =
     [\<lparr>Exclusion.XMLName = local_name ''exclusion'', Exclusion.GroupId = ''commons-logging'',
       Exclusion.ArtifactId = ''commons-logging''\<rparr>,
      \<lparr>Exclusion.XMLName = local_name ''exclusion'', Exclusion.GroupId = ''log4j'',
       Exclusion.ArtifactId = ''log4j''\<rparr>]"
  using Dependency_two_exclusions
          [of "[Element (local_name ''groupId'') [] [Text ''org.example''],
                Element (local_name ''artifactId'') [] [Text ''lib''],
                Element (local_name ''exclusions'') []
                  [excl ''commons-logging'' ''commons-logging'', Text '' '', excl ''log4j'' ''log4j'']]"
              "Element (local_name ''exclusions'') []
                  [excl ''commons-logging'' ''commons-logging'', Text '' '', excl ''log4j'' ''log4j'']"
              "excl ''commons-logging'' ''commons-logging''" "excl ''log4j'' ''log4j''"
              "local_name ''dependency''"]
  by (simp add: children_def excl_def local_name_def child_text_def)

subsection \<open>C10: no property at all\<close>

text \<open>
  C10: for a project that \<open>Parse\<close> returns for a document whose root has no
  \<open>properties\<close> element, or only \<open>properties\<close> elements without a child element, the
  property map is \<open>nil\<close> and \<open>GetProperty\<close> gives the empty string and \<open>false\<close> for
  every key.
\<close>

theorem GetProperty_without_properties:
  assumes "file_content fs path = Some bytes"
    and "Parse fs path = Returns (Some mp) None"
    and "document_root bytes = Inr (Element n a kids)"
    and "\<forall>p \<in> set (children ''properties'' kids). filter is_element (content p) = []"
    and "range_order (MavenProject.Properties mp) (visit (MavenProject.Properties mp))"
  shows "MavenProject.Properties mp = None \<and> GetProperty U visit mp key = ([], False)"
proof -
  have mp: "mp = unmarshal_MavenProject n kids zero_MavenProject"
    using Parse_decodes_root[OF assms(2,1,3)] .
  have nil: "MavenProject.Properties mp = None"
    by (simp add: mp Properties_unmarshal_MavenProject fold_UnmarshalXML_no_element[OF assms(4)]
          zero_MavenProject_def)
  from assms(5) have "visit (MavenProject.Properties mp) = []"
    unfolding nil by (rule range_order_nil)
  with nil show ?thesis by (simp add: GetProperty_def)
qed

theorem GetProperty_without_properties_witness:
  "MavenProject.Properties empty_project = None \<and>
   GetProperty id (\<lambda>props. []) empty_project ''java.version'' = ([], False)"
  using GetProperty_without_properties [where U = id and visit = "\<lambda>props. []"
          and key = "''java.version''",
          OF file_content_file_with Parse_empty_properties_pom document_root_empty_properties_pom]
  by (simp add: children_def local_name_def range_order_def empty_project_def
        zero_MavenProject_def)

end
